theory Spec2Isabelle
  imports Main "HOL-Library.Word"
begin

unbundle bit_operations_syntax

section \<open>Curve names\<close>

text \<open>
  \<^verbatim>\<open>type ECDSACurve int\<close> with the constants \<^verbatim>\<open>P224 = iota\<close>, \<^verbatim>\<open>P256\<close>, \<^verbatim>\<open>P384\<close>,
  \<^verbatim>\<open>P521\<close>. The type is an integer type, so a value outside the four constants can be
  stored in it; no arithmetic is done on it, so it is an \<open>int\<close> here.
\<close>

type_synonym ECDSACurve = int

definition P224 :: ECDSACurve where "P224 = 0"
definition P256 :: ECDSACurve where "P256 = 1"
definition P384 :: ECDSACurve where "P384 = 2"
definition P521 :: ECDSACurve where "P521 = 3"

text \<open>A Go \<^verbatim>\<open>error\<close> of the standard library is its message; \<^verbatim>\<open>nil\<close> is \<open>None\<close>.\<close>

type_synonym error = "string option"

definition ECDSACurve_String :: "ECDSACurve \<Rightarrow> string" where
  "ECDSACurve_String e =
     (if e = P224 then ''P224''
      else if e = P256 then ''P256''
      else if e = P384 then ''P384''
      else if e = P521 then ''P521''
      else '''')"

definition ECDSACurveFromString :: "string \<Rightarrow> ECDSACurve \<times> error" where
  "ECDSACurveFromString s =
     (if s = ''P224'' then (P224, None)
      else if s = ''P256'' then (P256, None)
      else if s = ''P384'' then (P384, None)
      else if s = ''P521'' then (P521, None)
      else (P224, Some ''Invalid or Not supported ECDSA Curve''))"

section \<open>Parameters\<close>

text \<open>
  \<^verbatim>\<open>time.Time\<close> is an instant and \<^verbatim>\<open>time.Duration\<close> a signed count of nanoseconds. An
  instant is modelled as its count of nanoseconds since the Unix epoch, an unbounded
  integer, and \<^verbatim>\<open>Time.Add\<close> as addition: the range limits of the library's internal
  representation (hundreds of billions of years) are not modelled.
\<close>

type_synonym Time = int
type_synonym Duration = int

definition Time_Add :: "Time \<Rightarrow> Duration \<Rightarrow> Time" where
  "Time_Add t d = t + d"

definition time_Hour :: Duration where
  "time_Hour = 3600000000000"

record CertParams =
  Hosts :: string
  ValidFrom :: Time
  ValidFor :: Duration
  IsCA :: bool
  Rsa :: bool
  RsaBits :: int
  EcdsaCurve :: ECDSACurve

text \<open>\<^verbatim>\<open>NewDefaultParams\<close>; the argument is the reading of \<^verbatim>\<open>time.Now()\<close>.\<close>

definition NewDefaultParams :: "Time \<Rightarrow> CertParams" where
  "NewDefaultParams now =
     \<lparr>Hosts = ''localhost'', ValidFrom = now, ValidFor = 365 * 24 * time_Hour,
      IsCA = False, Rsa = True, RsaBits = 2048, EcdsaCurve = P256\<rparr>"

definition notAfter :: "CertParams \<Rightarrow> Time" where
  "notAfter cp = Time_Add (ValidFrom cp) (ValidFor cp)"

section \<open>Keys\<close>

type_synonym byte = "8 word"

datatype elliptic_Curve = elliptic_P224 | elliptic_P256 | elliptic_P384 | elliptic_P521

record rsa_PublicKey =
  rsaN :: int
  rsaE :: int

record rsa_PrivateKey =
  rsaPublicKey :: rsa_PublicKey
  rsaD :: int

record ecdsa_PublicKey =
  ecCurve :: elliptic_Curve
  ecX :: int
  ecY :: int

record ecdsa_PrivateKey =
  ecPublicKey :: ecdsa_PublicKey
  ecD :: int

text \<open>
  The values the variable \<^verbatim>\<open>priv interface{}\<close> of \<^verbatim>\<open>genCertPair\<close> holds: \<^verbatim>\<open>nil\<close>, a
  \<^verbatim>\<open>*rsa.PrivateKey\<close> or a \<^verbatim>\<open>*ecdsa.PrivateKey\<close>; and the values \<^verbatim>\<open>publicKey\<close> returns.
\<close>

datatype PrivateKey = NilKey | RSAKey rsa_PrivateKey | ECDSAKey ecdsa_PrivateKey

datatype PublicKey = NilPublicKey | RSAPublicKey rsa_PublicKey | ECDSAPublicKey ecdsa_PublicKey

fun publicKey :: "PrivateKey \<Rightarrow> PublicKey" where
  "publicKey (RSAKey k) = RSAPublicKey (rsaPublicKey k)"
| "publicKey (ECDSAKey k) = ECDSAPublicKey (ecPublicKey k)"
| "publicKey NilKey = NilPublicKey"

section \<open>The certificate template\<close>

type_synonym IP = "byte list"

datatype x509_ExtKeyUsage = x509_ExtKeyUsageAny | x509_ExtKeyUsageServerAuth
  | x509_ExtKeyUsageClientAuth

text \<open>\<^verbatim>\<open>x509.KeyUsage\<close> is an integer of flags, \<^verbatim>\<open>1 << iota\<close> in the library's order.\<close>

type_synonym x509_KeyUsage = int

definition x509_KeyUsageDigitalSignature :: x509_KeyUsage where
  "x509_KeyUsageDigitalSignature = push_bit 0 1"

definition x509_KeyUsageKeyEncipherment :: x509_KeyUsage where
  "x509_KeyUsageKeyEncipherment = push_bit 2 1"

definition x509_KeyUsageCertSign :: x509_KeyUsage where
  "x509_KeyUsageCertSign = push_bit 5 1"

record pkix_Name =
  Organization :: "string list"

text \<open>The fields of \<^verbatim>\<open>x509.Certificate\<close> that \<^verbatim>\<open>genCertPair\<close> sets; the others keep their
  zero value (\<^verbatim>\<open>false\<close>, \<^verbatim>\<open>nil\<close>).\<close>

record x509_Certificate =
  x509_SerialNumber :: int
  x509_Subject :: pkix_Name
  x509_NotBefore :: Time
  x509_NotAfter :: Time
  x509_KeyUsage :: x509_KeyUsage
  x509_ExtKeyUsage :: "x509_ExtKeyUsage list"
  x509_BasicConstraintsValid :: bool
  x509_IsCA :: bool
  x509_DNSNames :: "string list"
  x509_IPAddresses :: "IP list"

record pem_Block =
  pem_Type :: string
  pem_Bytes :: "byte list"

section \<open>The standard library\<close>

text \<open>
  The functions of the Go standard library that the package calls and whose result is
  not determined by the package: they are parameters of the model. \<open>'g\<close> is the state of
  the process-wide random source \<^verbatim>\<open>rand.Reader\<close>; a function that reads it returns the
  state after the read. A library call that returns \<^verbatim>\<open>(value, error)\<close> is a sum, \<open>Inl\<close>
  the error's message.
\<close>

record 'g stdlib =
  rsa_GenerateKey :: "int \<Rightarrow> 'g \<Rightarrow> (string + rsa_PrivateKey) \<times> 'g"
  ecdsa_GenerateKey :: "elliptic_Curve \<Rightarrow> 'g \<Rightarrow> (string + ecdsa_PrivateKey) \<times> 'g"
  rand_Int :: "int \<Rightarrow> 'g \<Rightarrow> (string + int) \<times> 'g"
  net_ParseIP :: "string \<Rightarrow> IP option"
  x509_CreateCertificate ::
    "x509_Certificate \<Rightarrow> x509_Certificate \<Rightarrow> PublicKey \<Rightarrow> PrivateKey \<Rightarrow> 'g
       \<Rightarrow> (string + byte list) \<times> 'g"
  x509_MarshalPKCS1PrivateKey :: "rsa_PrivateKey \<Rightarrow> byte list"
  x509_MarshalECPrivateKey :: "ecdsa_PrivateKey \<Rightarrow> string + byte list"
  pem_EncodeToMemory :: "pem_Block \<Rightarrow> byte list"
  time_Now :: Time
  time_Parse :: "string \<Rightarrow> string \<Rightarrow> string + Time"

text \<open>
  \<^verbatim>\<open>strings.Split(s, sep)\<close> for a separator of one character, which is how the package
  calls it: while the separator occurs, cut the text before its first occurrence and go
  on after it; the rest is the last piece.
\<close>

function strings_Split :: "string \<Rightarrow> char \<Rightarrow> string list" where
  "strings_Split s sep =
     (if sep \<in> set s
      then takeWhile (\<lambda>c. c \<noteq> sep) s # strings_Split (tl (dropWhile (\<lambda>c. c \<noteq> sep) s)) sep
      else [s])"
  by pat_completeness auto
termination
proof (relation "measure (\<lambda>(s, sep). length s)")
  show "wf (measure (\<lambda>(s, sep). length s))" by simp
next
  fix s :: string and sep :: char
  assume "sep \<in> set s"
  then have "dropWhile (\<lambda>c. c \<noteq> sep) s \<noteq> []" by (simp add: dropWhile_eq_Nil_conv)
  then have "length (tl (dropWhile (\<lambda>c. c \<noteq> sep) s)) < length (dropWhile (\<lambda>c. c \<noteq> sep) s)"
    by simp
  also have "\<dots> \<le> length s" by (rule length_dropWhile_le)
  finally show "((tl (dropWhile (\<lambda>c. c \<noteq> sep) s), sep), (s, sep)) \<in> measure (\<lambda>(s, sep). length s)"
    by simp
qed

section \<open>Generating the pair\<close>

text \<open>How a call ends: it returns, the process exits with a status after writing a
  message to standard error, or it panics.\<close>

datatype 'a outcome = Returns 'a | Exits int string | Panics

text \<open>The three errors \<^verbatim>\<open>genCertPair\<close> builds with \<^verbatim>\<open>fmt.Errorf\<close>, each around the message
  of the library error that caused it, and the text of each.\<close>

datatype genError =
    FailedPrivateKey string
  | FailedSerialNumber string
  | FailedCreateCertificate string

fun Error :: "genError \<Rightarrow> string" where
  "Error (FailedPrivateKey e) = ''failed to generate private key: '' @ e"
| "Error (FailedSerialNumber e) = ''failed to generate serial number: '' @ e"
| "Error (FailedCreateCertificate e) = ''Failed to create certificate: '' @ e"

datatype errorKind = KeyGenerationError | SerializationError

text \<open>Modelled from the spec: the package has no error types; the specification names the
  class of each failure of \<open>generate\<close> (key generation and serial number:
  KeyGenerationError; signing: SerializationError).\<close>

fun kindOf :: "genError \<Rightarrow> errorKind" where
  "kindOf (FailedPrivateKey e) = KeyGenerationError"
| "kindOf (FailedSerialNumber e) = KeyGenerationError"
| "kindOf (FailedCreateCertificate e) = SerializationError"

text \<open>Lines 127 to 142 of \<^verbatim>\<open>genCertPair\<close>: the key and the error after the \<^verbatim>\<open>if\<close>. The
  \<^verbatim>\<open>switch\<close> on the curve has no \<^verbatim>\<open>default\<close>: for any other value both stay \<^verbatim>\<open>nil\<close> and
  the random source is not read. When the library fails, the key it returns with the
  error is never read (the next statement returns), so it is \<open>NilKey\<close> here.\<close>

definition fromRSA :: "(string + rsa_PrivateKey) \<times> 'g \<Rightarrow> (PrivateKey \<times> error) \<times> 'g" where
  "fromRSA r = (case r of (Inl e, g') \<Rightarrow> ((NilKey, Some e), g')
                | (Inr k, g') \<Rightarrow> ((RSAKey k, None), g'))"

definition fromECDSA :: "(string + ecdsa_PrivateKey) \<times> 'g \<Rightarrow> (PrivateKey \<times> error) \<times> 'g" where
  "fromECDSA r = (case r of (Inl e, g') \<Rightarrow> ((NilKey, Some e), g')
                  | (Inr k, g') \<Rightarrow> ((ECDSAKey k, None), g'))"

definition generateKey :: "'g stdlib \<Rightarrow> CertParams \<Rightarrow> 'g \<Rightarrow> (PrivateKey \<times> error) \<times> 'g" where
  "generateKey lib cp g =
     (if Rsa cp then fromRSA (rsa_GenerateKey lib (RsaBits cp) g)
      else if EcdsaCurve cp = P224 then fromECDSA (ecdsa_GenerateKey lib elliptic_P224 g)
      else if EcdsaCurve cp = P256 then fromECDSA (ecdsa_GenerateKey lib elliptic_P256 g)
      else if EcdsaCurve cp = P384 then fromECDSA (ecdsa_GenerateKey lib elliptic_P384 g)
      else if EcdsaCurve cp = P521 then fromECDSA (ecdsa_GenerateKey lib elliptic_P521 g)
      else ((NilKey, None), g))"

definition serialNumberLimit :: int where
  "serialNumberLimit = push_bit 128 1"

text \<open>Lines 153 to 164: the template literal.\<close>

definition templateLiteral :: "CertParams \<Rightarrow> int \<Rightarrow> x509_Certificate" where
  "templateLiteral cp serialNumber =
     \<lparr>x509_SerialNumber = serialNumber,
      x509_Subject = \<lparr>Organization = [''Acme Co'']\<rparr>,
      x509_NotBefore = ValidFrom cp,
      x509_NotAfter = notAfter cp,
      x509_KeyUsage = x509_KeyUsageKeyEncipherment OR x509_KeyUsageDigitalSignature,
      x509_ExtKeyUsage = [x509_ExtKeyUsageServerAuth],
      x509_BasicConstraintsValid = True,
      x509_IsCA = False,
      x509_DNSNames = [],
      x509_IPAddresses = []\<rparr>"

text \<open>Lines 167 to 173: the loop over the hosts.\<close>

fun addHosts :: "'g stdlib \<Rightarrow> string list \<Rightarrow> x509_Certificate \<Rightarrow> x509_Certificate" where
  "addHosts lib [] template = template"
| "addHosts lib (h # hosts) template =
     (case net_ParseIP lib h of
        Some ip \<Rightarrow>
          addHosts lib hosts (template\<lparr>x509_IPAddresses := x509_IPAddresses template @ [ip]\<rparr>)
      | None \<Rightarrow>
          addHosts lib hosts (template\<lparr>x509_DNSNames := x509_DNSNames template @ [h]\<rparr>))"

text \<open>Lines 153 to 178: the template handed to \<^verbatim>\<open>x509.CreateCertificate\<close>.\<close>

definition certTemplate :: "'g stdlib \<Rightarrow> CertParams \<Rightarrow> int \<Rightarrow> x509_Certificate" where
  "certTemplate lib cp serialNumber =
     (let template = templateLiteral cp serialNumber;
          hosts = strings_Split (Hosts cp) (CHR '','');
          template = addHosts lib hosts template
      in if IsCA cp
         then template\<lparr>x509_IsCA := True,
                x509_KeyUsage := x509_KeyUsage template OR x509_KeyUsageCertSign\<rparr>
         else template)"

text \<open>\<^verbatim>\<open>genCertPair\<close> returns \<^verbatim>\<open>(interface{}, []byte, error)\<close>: the three results are kept
  as they are, \<open>None\<close> for a \<^verbatim>\<open>nil\<close> slice or error, with the state of the random source.
  Lines 180 to 184 first: the template signs itself.\<close>

definition signTemplate ::
  "'g stdlib \<Rightarrow> x509_Certificate \<Rightarrow> PrivateKey \<Rightarrow> 'g
     \<Rightarrow> (PrivateKey \<times> byte list option \<times> genError option) \<times> 'g" where
  "signTemplate lib template priv g =
     (case x509_CreateCertificate lib template template (publicKey priv) priv g of
        (Inl e, g') \<Rightarrow> ((NilKey, None, Some (FailedCreateCertificate e)), g')
      | (Inr derBytes, g') \<Rightarrow> ((priv, Some derBytes, None), g'))"

definition genCertPair ::
  "'g stdlib \<Rightarrow> CertParams \<Rightarrow> 'g \<Rightarrow> (PrivateKey \<times> byte list option \<times> genError option) \<times> 'g"
where
  "genCertPair lib cp g =
     (case generateKey lib cp g of
        ((priv, Some e), g1) \<Rightarrow> ((NilKey, None, Some (FailedPrivateKey e)), g1)
      | ((priv, None), g1) \<Rightarrow>
          (case rand_Int lib serialNumberLimit g1 of
             (Inl e, g2) \<Rightarrow> ((NilKey, None, Some (FailedSerialNumber e)), g2)
           | (Inr serialNumber, g2) \<Rightarrow>
               signTemplate lib (certTemplate lib cp serialNumber) priv g2))"

section \<open>PEM encoding\<close>

text \<open>\<^verbatim>\<open>pemBlockForKey\<close> returns a pointer to a block, \<^verbatim>\<open>nil\<close> in the \<^verbatim>\<open>default\<close> case; when
  the library cannot marshal an ECDSA key it writes to standard error and calls
  \<^verbatim>\<open>os.Exit(2)\<close>.\<close>

fun pemBlockForKey :: "'g stdlib \<Rightarrow> PrivateKey \<Rightarrow> pem_Block option outcome" where
  "pemBlockForKey lib (RSAKey k) =
     Returns (Some \<lparr>pem_Type = ''RSA PRIVATE KEY'', pem_Bytes = x509_MarshalPKCS1PrivateKey lib k\<rparr>)"
| "pemBlockForKey lib (ECDSAKey k) =
     (case x509_MarshalECPrivateKey lib k of
        Inl err \<Rightarrow> Exits 2 (''Unable to marshal ECDSA private key: '' @ err)
      | Inr b \<Rightarrow> Returns (Some \<lparr>pem_Type = ''EC PRIVATE KEY'', pem_Bytes = b\<rparr>))"
| "pemBlockForKey lib NilKey = Returns None"

text \<open>A \<^verbatim>\<open>nil\<close> slice read as bytes is the empty sequence.\<close>

fun bytesOf :: "byte list option \<Rightarrow> byte list" where
  "bytesOf None = []"
| "bytesOf (Some b) = b"

text \<open>Lines 195 to 197 of \<^verbatim>\<open>GenerateToMemory\<close>, with its named results \<^verbatim>\<open>(cert, key, err)\<close>;
  \<^verbatim>\<open>err\<close> is \<^verbatim>\<open>nil\<close> there. \<^verbatim>\<open>pem.EncodeToMemory\<close> reads the fields of the block it is
  given: on a \<^verbatim>\<open>nil\<close> block it panics.\<close>

definition encodePEM ::
  "'g stdlib \<Rightarrow> PrivateKey \<Rightarrow> byte list option
     \<Rightarrow> (byte list option \<times> byte list option \<times> genError option) outcome" where
  "encodePEM lib priv derBytes =
     (let cert = pem_EncodeToMemory lib \<lparr>pem_Type = ''CERTIFICATE'', pem_Bytes = bytesOf derBytes\<rparr>
      in case pemBlockForKey lib priv of
           Exits status msg \<Rightarrow> Exits status msg
         | Panics \<Rightarrow> Panics
         | Returns None \<Rightarrow> Panics
         | Returns (Some block) \<Rightarrow> Returns (Some cert, Some (pem_EncodeToMemory lib block), None))"

definition GenerateToMemory ::
  "'g stdlib \<Rightarrow> CertParams \<Rightarrow> 'g
     \<Rightarrow> ((byte list option \<times> byte list option \<times> genError option) \<times> 'g) outcome" where
  "GenerateToMemory lib cp g =
     (case genCertPair lib cp g of
        ((priv, derBytes, Some err), g') \<Rightarrow> Returns ((None, None, Some err), g')
      | ((priv, derBytes, None), g') \<Rightarrow>
          (case encodePEM lib priv derBytes of
             Returns r \<Rightarrow> Returns (r, g')
           | Exits status msg \<Rightarrow> Exits status msg
           | Panics \<Rightarrow> Panics))"

section \<open>The command\<close>




section \<open>A library instance\<close>

text \<open>A small instance of the library parameters, to run the model on concrete inputs.
  The state of the random source is the number of reads made.\<close>

definition demoRSAKey :: rsa_PrivateKey where
  "demoRSAKey = \<lparr>rsaPublicKey = \<lparr>rsaN = 3233, rsaE = 17\<rparr>, rsaD = 2753\<rparr>"

definition demoECDSAKey :: "elliptic_Curve \<Rightarrow> ecdsa_PrivateKey" where
  "demoECDSAKey c = \<lparr>ecPublicKey = \<lparr>ecCurve = c, ecX = 5, ecY = 1\<rparr>, ecD = 7\<rparr>"

definition demoParseIP :: "string \<Rightarrow> IP option" where
  "demoParseIP s =
     (if s = ''10.0.0.1'' then Some [0,0,0,0,0,0,0,0,0,0,255,255,10,0,0,1]
      else if s = ''::1'' then Some [0,0,0,0,0,0,0,0,0,0,0,0,0,0,0,1]
      else None)"

definition demoLib :: "int stdlib" where
  "demoLib =
     \<lparr>rsa_GenerateKey = (\<lambda>bits g. if bits < 1024 then (Inl ''crypto/rsa: key too small'', g)
                                   else (Inr demoRSAKey, g + 1)),
      ecdsa_GenerateKey = (\<lambda>c g. (Inr (demoECDSAKey c), g + 1)),
      rand_Int = (\<lambda>limit g. (Inr ((1000003 * g + 12345) mod limit), g + 1)),
      net_ParseIP = demoParseIP,
      x509_CreateCertificate = (\<lambda>template parent pub priv g.
         if priv = NilKey
         then (Inl ''x509: certificate private key does not implement crypto.Signer'', g)
         else (Inr [48, 130], g + 1)),
      x509_MarshalPKCS1PrivateKey = (\<lambda>k. [48, 1]),
      x509_MarshalECPrivateKey = (\<lambda>k. if ecD k = 0 then Inl ''x509: unknown elliptic curve''
                                        else Inr [48, 2]),
      pem_EncodeToMemory = (\<lambda>b. map (\<lambda>c. of_nat (of_char c)) (pem_Type b) @ pem_Bytes b),
      time_Now = 1700000000000000000,
      time_Parse = (\<lambda>layout v. if v = ''Jan 1 00:00:00 2024'' then Inr 1704067200000000000
                                else Inl ''parsing time: cannot parse'')\<rparr>"


section \<open>Splitting the host list\<close>

declare strings_Split.simps [simp del]

lemma strings_Split_Nil: "strings_Split [] sep = [[]]"
  by (simp add: strings_Split.simps)

lemma strings_Split_not_Nil: "strings_Split s sep \<noteq> []"
  by (subst strings_Split.simps) simp

text \<open>The recursion of \<open>strings_Split\<close> read off one character at a time: a separator
  closes a piece, any other character joins the piece that follows.\<close>

lemma strings_Split_Cons:
  "strings_Split (x # xs) sep =
     (if x = sep then [] # strings_Split xs sep
      else (case strings_Split xs sep of [] \<Rightarrow> [[x]] | w # ws \<Rightarrow> (x # w) # ws))"
proof (cases "x = sep")
  case True
  then show ?thesis by (subst strings_Split.simps) simp
next
  case x: False
  show ?thesis
  proof (cases "sep \<in> set xs")
    case True
    have "strings_Split xs sep =
        takeWhile (\<lambda>c. c \<noteq> sep) xs # strings_Split (tl (dropWhile (\<lambda>c. c \<noteq> sep) xs)) sep"
      using True by (subst strings_Split.simps) simp
    moreover have "strings_Split (x # xs) sep =
        (x # takeWhile (\<lambda>c. c \<noteq> sep) xs)
          # strings_Split (tl (dropWhile (\<lambda>c. c \<noteq> sep) xs)) sep"
      using True x by (subst strings_Split.simps) simp
    ultimately show ?thesis using x by simp
  next
    case False
    have "strings_Split xs sep = [xs]"
      using False by (subst strings_Split.simps) simp
    moreover have "strings_Split (x # xs) sep = [x # xs]"
      using False x by (subst strings_Split.simps) simp
    ultimately show ?thesis using x by simp
  qed
qed

lemma length_strings_Split: "length (strings_Split s sep) = count_list s sep + 1"
proof (induction s)
  case Nil
  show ?case by (simp add: strings_Split_Nil)
next
  case (Cons x xs)
  obtain w ws where "strings_Split xs sep = w # ws"
    using strings_Split_not_Nil [of xs sep] by (cases "strings_Split xs sep") auto
  then show ?case using Cons by (simp add: strings_Split_Cons)
qed

text \<open>No piece holds a separator, and the pieces put back together with the separator
  are the text: \<open>strings_Split\<close> cuts at every separator and nowhere else.\<close>

lemma strings_Split_no_sep: "w \<in> set (strings_Split s sep) \<Longrightarrow> sep \<notin> set w"
proof (induction s arbitrary: w)
  case Nil
  then show ?case by (simp add: strings_Split_Nil)
next
  case (Cons x xs)
  obtain v vs where e: "strings_Split xs sep = v # vs"
    using strings_Split_not_Nil [of xs sep] by (cases "strings_Split xs sep") auto
  then have "sep \<notin> set v" and "\<And>u. u \<in> set vs \<Longrightarrow> sep \<notin> set u"
    using Cons.IH by simp_all
  then show ?case
    using Cons.prems e by (auto simp: strings_Split_Cons split: if_splits)
qed

lemma strings_Split_join:
  "concat (map (\<lambda>w. w @ [sep]) (strings_Split s sep)) = s @ [sep]"
proof (induction s)
  case Nil
  show ?case by (simp add: strings_Split_Nil)
next
  case (Cons x xs)
  obtain w ws where "strings_Split xs sep = w # ws"
    using strings_Split_not_Nil [of xs sep] by (cases "strings_Split xs sep") auto
  then show ?case using Cons by (simp add: strings_Split_Cons)
qed

section \<open>The template, field by field\<close>

lemma addHosts_eq:
  "addHosts lib hosts t =
     t\<lparr>x509_DNSNames := x509_DNSNames t @ filter (\<lambda>h. net_ParseIP lib h = None) hosts,
       x509_IPAddresses := x509_IPAddresses t @ List.map_filter (net_ParseIP lib) hosts\<rparr>"
proof (induction hosts arbitrary: t)
  case Nil
  show ?case by simp
next
  case (Cons h hosts)
  show ?case
  proof (cases "net_ParseIP lib h")
    case None
    then show ?thesis by (simp add: Cons.IH)
  next
    case (Some ip)
    then show ?thesis by (simp add: Cons.IH)
  qed
qed

lemma templateLiteral_sel:
  "x509_DNSNames (templateLiteral cp sn) = []"
  "x509_IPAddresses (templateLiteral cp sn) = []"
  "x509_NotBefore (templateLiteral cp sn) = ValidFrom cp"
  "x509_NotAfter (templateLiteral cp sn) = notAfter cp"
  "x509_SerialNumber (templateLiteral cp sn) = sn"
  "x509_IsCA (templateLiteral cp sn) = False"
  "x509_BasicConstraintsValid (templateLiteral cp sn) = True"
  "x509_KeyUsage (templateLiteral cp sn) = x509_KeyUsageKeyEncipherment OR x509_KeyUsageDigitalSignature"
  by (simp_all add: templateLiteral_def)

lemma certTemplate_DNSNames:
  "x509_DNSNames (certTemplate lib cp sn) =
     filter (\<lambda>h. net_ParseIP lib h = None) (strings_Split (Hosts cp) (CHR '',''))"
  by (simp add: certTemplate_def Let_def addHosts_eq templateLiteral_sel)

lemma certTemplate_IPAddresses:
  "x509_IPAddresses (certTemplate lib cp sn) =
     List.map_filter (net_ParseIP lib) (strings_Split (Hosts cp) (CHR '',''))"
  by (simp add: certTemplate_def Let_def addHosts_eq templateLiteral_sel)

lemma certTemplate_NotBefore: "x509_NotBefore (certTemplate lib cp sn) = ValidFrom cp"
  by (simp add: certTemplate_def Let_def addHosts_eq templateLiteral_sel)

lemma certTemplate_NotAfter: "x509_NotAfter (certTemplate lib cp sn) = ValidFrom cp + ValidFor cp"
  by (simp add: certTemplate_def Let_def addHosts_eq templateLiteral_sel notAfter_def Time_Add_def)

lemma certTemplate_SerialNumber: "x509_SerialNumber (certTemplate lib cp sn) = sn"
  by (simp add: certTemplate_def Let_def addHosts_eq templateLiteral_sel)

lemma certTemplate_IsCA: "x509_IsCA (certTemplate lib cp sn) = IsCA cp"
  by (simp add: certTemplate_def Let_def addHosts_eq templateLiteral_sel)

lemma certTemplate_BasicConstraintsValid: "x509_BasicConstraintsValid (certTemplate lib cp sn)"
  by (simp add: certTemplate_def Let_def addHosts_eq templateLiteral_sel)

lemma certTemplate_KeyUsage:
  "x509_KeyUsage (certTemplate lib cp sn) =
     (if IsCA cp
      then (x509_KeyUsageKeyEncipherment OR x509_KeyUsageDigitalSignature) OR x509_KeyUsageCertSign
      else x509_KeyUsageKeyEncipherment OR x509_KeyUsageDigitalSignature)"
  by (simp add: certTemplate_def Let_def addHosts_eq templateLiteral_sel)

lemma KeyUsage_values:
  "x509_KeyUsageDigitalSignature = 1" "x509_KeyUsageKeyEncipherment = 4" "x509_KeyUsageCertSign = 32"
  by (simp_all add: x509_KeyUsageDigitalSignature_def x509_KeyUsageKeyEncipherment_def
      x509_KeyUsageCertSign_def)

lemma length_map_filter_split:
  "length (List.map_filter f xs) + length (filter (\<lambda>x. f x = None) xs) = length xs"
  by (induction xs) (auto split: option.splits)

lemma count_list_filter: "P y \<Longrightarrow> count_list (filter P xs) y = count_list xs y"
  by (induction xs) auto

section \<open>The phases of a generation call\<close>

lemmas curve_defs = P224_def P256_def P384_def P521_def

lemma serialNumberLimit_value: "serialNumberLimit = 2 ^ 128"
  by (simp add: serialNumberLimit_def)

text \<open>Once the key is there and the serial number is drawn, the call signs the template
  built from the parameters: no branch of \<^verbatim>\<open>genCertPair\<close> inspects them.\<close>

lemma genCertPair_signs:
  "generateKey lib cp g = ((priv, None), g1) \<Longrightarrow> rand_Int lib serialNumberLimit g1 = (Inr sn, g2)
   \<Longrightarrow> genCertPair lib cp g = signTemplate lib (certTemplate lib cp sn) priv g2"
  by (simp add: genCertPair_def)

text \<open>A failure of the library's key generation is returned as the first error, for RSA
  and for each of the four curves.\<close>

lemma genCertPair_rsa_failure:
  "Rsa cp \<Longrightarrow> rsa_GenerateKey lib (RsaBits cp) g = (Inl e, g') \<Longrightarrow>
     genCertPair lib cp g = ((NilKey, None, Some (FailedPrivateKey e)), g')
     \<and> kindOf (FailedPrivateKey e) = KeyGenerationError"
  by (simp add: genCertPair_def generateKey_def fromRSA_def)

lemma genCertPair_ecdsa_failure:
  "\<not> Rsa cp \<Longrightarrow> EcdsaCurve cp = P384 \<Longrightarrow> ecdsa_GenerateKey lib elliptic_P384 g = (Inl e, g') \<Longrightarrow>
     genCertPair lib cp g = ((NilKey, None, Some (FailedPrivateKey e)), g')"
  by (simp add: genCertPair_def generateKey_def fromECDSA_def curve_defs)

text \<open>A curve value that is none of the four constants: no key is generated, no error is
  set and the random source is not read; the call goes on, and whatever it returns is
  not the key generation error.\<close>

lemma generateKey_unsupported_curve:
  "\<not> Rsa cp \<Longrightarrow> EcdsaCurve cp \<notin> {P224, P256, P384, P521} \<Longrightarrow>
     generateKey lib cp g = ((NilKey, None), g)"
  by (simp add: generateKey_def)

lemma genCertPair_unsupported_curve:
  assumes "\<not> Rsa cp" "EcdsaCurve cp \<notin> {P224, P256, P384, P521}"
  shows "genCertPair lib cp g \<noteq> ((priv, der, Some (FailedPrivateKey e)), g')"
  using assms
  by (auto simp: genCertPair_def generateKey_unsupported_curve signTemplate_def
      split: prod.splits sum.splits)

section \<open>The library instance, evaluated\<close>

lemma demoLib_sel:
  "rsa_GenerateKey demoLib bits g =
     (if bits < 1024 then (Inl ''crypto/rsa: key too small'', g) else (Inr demoRSAKey, g + 1))"
  "ecdsa_GenerateKey demoLib c g = (Inr (demoECDSAKey c), g + 1)"
  "rand_Int demoLib limit g = (Inr ((1000003 * g + 12345) mod limit), g + 1)"
  "net_ParseIP demoLib = demoParseIP"
  "x509_MarshalPKCS1PrivateKey demoLib k = [48, 1]"
  "x509_MarshalECPrivateKey demoLib k' =
     (if ecD k' = 0 then Inl ''x509: unknown elliptic curve'' else Inr [48, 2])"
  "pem_EncodeToMemory demoLib b = map (\<lambda>c. of_nat (of_char c)) (pem_Type b) @ pem_Bytes b"
  "time_Now demoLib = 1700000000000000000"
  by (simp_all add: demoLib_def)

lemma demo_sign:
  "priv \<noteq> NilKey \<Longrightarrow> signTemplate demoLib t priv g = ((priv, Some [48, 130], None), g + 1)"
  "signTemplate demoLib t NilKey g =
     ((NilKey, None, Some (FailedCreateCertificate
        ''x509: certificate private key does not implement crypto.Signer'')), g)"
  by (simp_all add: signTemplate_def demoLib_def)

lemma demo_key:
  "generateKey demoLib (NewDefaultParams 0) 0 = ((RSAKey demoRSAKey, None), 1)"
  "generateKey demoLib ((NewDefaultParams 0)\<lparr>RsaBits := 512\<rparr>) 0
     = ((NilKey, Some ''crypto/rsa: key too small''), 0)"
  "generateKey demoLib ((NewDefaultParams 1000)\<lparr>ValidFor := - 5\<rparr>) 0 = ((RSAKey demoRSAKey, None), 1)"
  "generateKey demoLib ((NewDefaultParams 0)\<lparr>Hosts := '',a,,10.0.0.1''\<rparr>) 0
     = ((RSAKey demoRSAKey, None), 1)"
  by (simp_all add: generateKey_def demoLib_sel NewDefaultParams_def fromRSA_def)

lemma demo_serial: "rand_Int demoLib serialNumberLimit 1 = (Inr 1012348, 2)"
  by (simp add: demoLib_sel serialNumberLimit_def)

lemma demo_gen_fail:
  "genCertPair demoLib ((NewDefaultParams 0)\<lparr>RsaBits := 512\<rparr>) 0 =
     ((NilKey, None, Some (FailedPrivateKey ''crypto/rsa: key too small'')), 0)"
  by (simp add: genCertPair_def demo_key)

lemma demo_gen_ok:
  "genCertPair demoLib (NewDefaultParams 0) 0 = ((RSAKey demoRSAKey, Some [48, 130], None), 3)"
  by (simp add: genCertPair_def demo_key demo_serial demo_sign)

lemma demo_mem_fail:
  "GenerateToMemory demoLib ((NewDefaultParams 0)\<lparr>RsaBits := 512\<rparr>) 0 =
     Returns ((None, None, Some (FailedPrivateKey ''crypto/rsa: key too small'')), 0)"
  by (simp add: GenerateToMemory_def demo_gen_fail)

lemma demo_mem_ok:
  "GenerateToMemory demoLib (NewDefaultParams 0) 0 =
     Returns ((Some [67, 69, 82, 84, 73, 70, 73, 67, 65, 84, 69, 48, 130],
               Some [82, 83, 65, 32, 80, 82, 73, 86, 65, 84, 69, 32, 75, 69, 89, 48, 1], None), 3)"
  by (simp add: GenerateToMemory_def demo_gen_ok encodePEM_def demoLib_sel)


section \<open>Subject alternative names\<close>

text \<open>
  C1. The template's subject alternative names are the pieces of \<^verbatim>\<open>Hosts\<close> cut at the
  commas, taken in input order: the IP addresses are the results of \<^verbatim>\<open>net.ParseIP\<close> on the
  pieces it accepts, the DNS names are the pieces it rejects. For
  \<^verbatim>\<open>"example.com,10.0.0.1,::1"\<close>, with a parser that rejects the first piece and accepts
  the two others, the DNS names are exactly \<^verbatim>\<open>example.com\<close> and the IP addresses exactly
  the two parsed addresses, in that order.
\<close>

theorem hosts_classified:
  "x509_IPAddresses (certTemplate lib cp sn) =
      List.map_filter (net_ParseIP lib) (strings_Split (Hosts cp) (CHR '',''))
   \<and> x509_DNSNames (certTemplate lib cp sn) =
      filter (\<lambda>h. net_ParseIP lib h = None) (strings_Split (Hosts cp) (CHR '',''))
   \<and> (Hosts cp = ''example.com,10.0.0.1,::1'' \<and> net_ParseIP lib ''example.com'' = None
        \<and> net_ParseIP lib ''10.0.0.1'' = Some ip4 \<and> net_ParseIP lib ''::1'' = Some ip6 \<longrightarrow>
          x509_DNSNames (certTemplate lib cp sn) = [''example.com'']
          \<and> x509_IPAddresses (certTemplate lib cp sn) = [ip4, ip6])"
proof -
  have "strings_Split ''example.com,10.0.0.1,::1'' (CHR '','')
      = [''example.com'', ''10.0.0.1'', ''::1'']"
    by (simp add: strings_Split_Nil strings_Split_Cons)
  then show ?thesis
    by (simp add: certTemplate_DNSNames certTemplate_IPAddresses)
qed

theorem hosts_classified_witness:
  "Hosts ((NewDefaultParams 0)\<lparr>Hosts := ''example.com,10.0.0.1,::1''\<rparr>) = ''example.com,10.0.0.1,::1''
   \<and> net_ParseIP demoLib ''example.com'' = None
   \<and> net_ParseIP demoLib ''10.0.0.1'' = Some [0,0,0,0,0,0,0,0,0,0,255,255,10,0,0,1]
   \<and> net_ParseIP demoLib ''::1'' = Some [0,0,0,0,0,0,0,0,0,0,0,0,0,0,0,1]
   \<and> x509_DNSNames (certTemplate demoLib ((NewDefaultParams 0)\<lparr>Hosts := ''example.com,10.0.0.1,::1''\<rparr>) 9)
         = [''example.com'']
   \<and> x509_IPAddresses (certTemplate demoLib ((NewDefaultParams 0)\<lparr>Hosts := ''example.com,10.0.0.1,::1''\<rparr>) 9)
         = [[0,0,0,0,0,0,0,0,0,0,255,255,10,0,0,1], [0,0,0,0,0,0,0,0,0,0,0,0,0,0,0,1]]"
proof -
  have h: "net_ParseIP demoLib ''example.com'' = None"
    "net_ParseIP demoLib ''10.0.0.1'' = Some [0,0,0,0,0,0,0,0,0,0,255,255,10,0,0,1]"
    "net_ParseIP demoLib ''::1'' = Some [0,0,0,0,0,0,0,0,0,0,0,0,0,0,0,1]"
    by (simp_all add: demoLib_sel demoParseIP_def)
  have c: "x509_DNSNames (certTemplate demoLib ((NewDefaultParams 0)\<lparr>Hosts := ''example.com,10.0.0.1,::1''\<rparr>) 9)
         = [''example.com'']
    \<and> x509_IPAddresses (certTemplate demoLib ((NewDefaultParams 0)\<lparr>Hosts := ''example.com,10.0.0.1,::1''\<rparr>) 9)
         = [[0,0,0,0,0,0,0,0,0,0,255,255,10,0,0,1], [0,0,0,0,0,0,0,0,0,0,0,0,0,0,0,1]]"
    by (rule hosts_classified [THEN conjunct2, THEN conjunct2, rule_format]) (simp add: h)
  show ?thesis using c h by simp
qed

text \<open>
  C10. The split neither drops nor merges entries: the IP addresses and the DNS names of
  the template are together as many as the pieces of \<^verbatim>\<open>Hosts\<close>, which are one more than its
  commas. With a parser that rejects the empty text, every empty piece is an empty DNS
  name, and an empty \<^verbatim>\<open>Hosts\<close> gives the single DNS name \<^verbatim>\<open>""\<close>; the call then signs that
  template like any other.
\<close>

theorem san_count:
  "length (x509_IPAddresses (certTemplate lib cp sn)) + length (x509_DNSNames (certTemplate lib cp sn))
      = length (strings_Split (Hosts cp) (CHR '',''))
   \<and> length (strings_Split (Hosts cp) (CHR '','')) = count_list (Hosts cp) (CHR '','') + 1
   \<and> (net_ParseIP lib '''' = None \<longrightarrow>
        count_list (x509_DNSNames (certTemplate lib cp sn)) ''''
           = count_list (strings_Split (Hosts cp) (CHR '','')) ''''
        \<and> (Hosts cp = '''' \<longrightarrow> x509_DNSNames (certTemplate lib cp sn) = ['''']
              \<and> x509_IPAddresses (certTemplate lib cp sn) = []))
   \<and> (generateKey lib cp g = ((priv, None), g1) \<and> rand_Int lib serialNumberLimit g1 = (Inr sn, g2) \<longrightarrow>
        genCertPair lib cp g = signTemplate lib (certTemplate lib cp sn) priv g2)"
  by (simp add: certTemplate_DNSNames certTemplate_IPAddresses length_map_filter_split
      length_strings_Split count_list_filter strings_Split_Nil genCertPair_signs)

theorem san_count_witness:
  "net_ParseIP demoLib '''' = None
   \<and> Hosts ((NewDefaultParams 0)\<lparr>Hosts := ''''\<rparr>) = ''''
   \<and> x509_DNSNames (certTemplate demoLib ((NewDefaultParams 0)\<lparr>Hosts := ''''\<rparr>) 9) = ['''']
   \<and> x509_IPAddresses (certTemplate demoLib ((NewDefaultParams 0)\<lparr>Hosts := ''''\<rparr>) 9) = []
   \<and> generateKey demoLib ((NewDefaultParams 0)\<lparr>Hosts := '',a,,10.0.0.1''\<rparr>) 0
        = ((RSAKey demoRSAKey, None), 1)
   \<and> rand_Int demoLib serialNumberLimit 1 = (Inr 1012348, 2)
   \<and> genCertPair demoLib ((NewDefaultParams 0)\<lparr>Hosts := '',a,,10.0.0.1''\<rparr>) 0
        = signTemplate demoLib
            (certTemplate demoLib ((NewDefaultParams 0)\<lparr>Hosts := '',a,,10.0.0.1''\<rparr>) 1012348)
            (RSAKey demoRSAKey) 2
   \<and> length (x509_IPAddresses
          (certTemplate demoLib ((NewDefaultParams 0)\<lparr>Hosts := '',a,,10.0.0.1''\<rparr>) 1012348))
       + length (x509_DNSNames
          (certTemplate demoLib ((NewDefaultParams 0)\<lparr>Hosts := '',a,,10.0.0.1''\<rparr>) 1012348))
       = 4
   \<and> count_list (x509_DNSNames
          (certTemplate demoLib ((NewDefaultParams 0)\<lparr>Hosts := '',a,,10.0.0.1''\<rparr>) 1012348)) '''' = 2"
proof -
  have p: "net_ParseIP demoLib '''' = None"
    by (simp add: demoLib_sel demoParseIP_def)
  have s: "strings_Split '',a,,10.0.0.1'' (CHR '','') = ['''', ''a'', '''', ''10.0.0.1'']"
    by (simp add: strings_Split_Nil strings_Split_Cons)
  show ?thesis
    using san_count [of demoLib "(NewDefaultParams 0)\<lparr>Hosts := ''''\<rparr>" 9]
      san_count [of demoLib "(NewDefaultParams 0)\<lparr>Hosts := '',a,,10.0.0.1''\<rparr>" 1012348 0
        "RSAKey demoRSAKey" 1 2] p s demo_key(4) demo_serial
    by simp
qed

section \<open>Validity window, key usage, serial number\<close>

text \<open>
  C2. For every parameter value the template's \<^verbatim>\<open>NotBefore\<close> is \<^verbatim>\<open>ValidFrom\<close> and its
  \<^verbatim>\<open>NotAfter\<close> is \<^verbatim>\<open>ValidFrom\<close> plus \<^verbatim>\<open>ValidFor\<close>, nothing clamped: with a zero or negative
  \<^verbatim>\<open>ValidFor\<close> the \<^verbatim>\<open>NotAfter\<close> is not after the \<^verbatim>\<open>NotBefore\<close>, and the call signs that
  template all the same once the key and the serial number are there.
\<close>

theorem validity_window:
  "x509_NotBefore (certTemplate lib cp sn) = ValidFrom cp
   \<and> x509_NotAfter (certTemplate lib cp sn) = ValidFrom cp + ValidFor cp
   \<and> (ValidFor cp \<le> 0 \<longrightarrow>
        x509_NotAfter (certTemplate lib cp sn) \<le> x509_NotBefore (certTemplate lib cp sn))
   \<and> (generateKey lib cp g = ((priv, None), g1) \<and> rand_Int lib serialNumberLimit g1 = (Inr sn, g2) \<longrightarrow>
        genCertPair lib cp g = signTemplate lib (certTemplate lib cp sn) priv g2)"
  by (simp add: certTemplate_NotBefore certTemplate_NotAfter genCertPair_signs)

theorem validity_window_witness:
  "ValidFor ((NewDefaultParams 1000)\<lparr>ValidFor := - 5\<rparr>) \<le> 0
   \<and> generateKey demoLib ((NewDefaultParams 1000)\<lparr>ValidFor := - 5\<rparr>) 0 = ((RSAKey demoRSAKey, None), 1)
   \<and> rand_Int demoLib serialNumberLimit 1 = (Inr 1012348, 2)
   \<and> x509_NotBefore (certTemplate demoLib ((NewDefaultParams 1000)\<lparr>ValidFor := - 5\<rparr>) 1012348) = 1000
   \<and> x509_NotAfter (certTemplate demoLib ((NewDefaultParams 1000)\<lparr>ValidFor := - 5\<rparr>) 1012348) = 995
   \<and> genCertPair demoLib ((NewDefaultParams 1000)\<lparr>ValidFor := - 5\<rparr>) 0
        = signTemplate demoLib (certTemplate demoLib ((NewDefaultParams 1000)\<lparr>ValidFor := - 5\<rparr>) 1012348)
            (RSAKey demoRSAKey) 2"
proof -
  have v: "ValidFor ((NewDefaultParams 1000)\<lparr>ValidFor := - 5\<rparr>) = - 5"
    "ValidFrom ((NewDefaultParams 1000)\<lparr>ValidFor := - 5\<rparr>) = 1000"
    by (simp_all add: NewDefaultParams_def)
  show ?thesis
    using validity_window [of demoLib "(NewDefaultParams 1000)\<lparr>ValidFor := - 5\<rparr>" 1012348 0
        "RSAKey demoRSAKey" 1 2] demo_key(3) demo_serial v
    by simp
qed

text \<open>
  C3. The template's key usage always has the key encipherment and the digital signature
  bits, and \<^verbatim>\<open>BasicConstraintsValid\<close> is always true. With \<^verbatim>\<open>IsCA\<close> the template is a CA
  and its key usage has the certificate signing bit; without it, neither.
\<close>

theorem key_usage_and_ca:
  "x509_KeyUsage (certTemplate lib cp sn) AND x509_KeyUsageKeyEncipherment = x509_KeyUsageKeyEncipherment
   \<and> x509_KeyUsage (certTemplate lib cp sn) AND x509_KeyUsageDigitalSignature = x509_KeyUsageDigitalSignature
   \<and> x509_BasicConstraintsValid (certTemplate lib cp sn)
   \<and> (IsCA cp \<longrightarrow> x509_IsCA (certTemplate lib cp sn)
          \<and> x509_KeyUsage (certTemplate lib cp sn) AND x509_KeyUsageCertSign = x509_KeyUsageCertSign)
   \<and> (\<not> IsCA cp \<longrightarrow> \<not> x509_IsCA (certTemplate lib cp sn)
          \<and> x509_KeyUsage (certTemplate lib cp sn) AND x509_KeyUsageCertSign = 0)"
  by (simp add: certTemplate_KeyUsage certTemplate_IsCA certTemplate_BasicConstraintsValid
      KeyUsage_values)

theorem key_usage_and_ca_witness:
  "IsCA ((NewDefaultParams 0)\<lparr>IsCA := True\<rparr>)
   \<and> x509_IsCA (certTemplate demoLib ((NewDefaultParams 0)\<lparr>IsCA := True\<rparr>) 9)
   \<and> x509_KeyUsage (certTemplate demoLib ((NewDefaultParams 0)\<lparr>IsCA := True\<rparr>) 9) AND x509_KeyUsageCertSign
        = x509_KeyUsageCertSign
   \<and> \<not> IsCA (NewDefaultParams 0)
   \<and> \<not> x509_IsCA (certTemplate demoLib (NewDefaultParams 0) 9)
   \<and> x509_KeyUsage (certTemplate demoLib (NewDefaultParams 0) 9) AND x509_KeyUsageCertSign = 0"
  using key_usage_and_ca [of demoLib "(NewDefaultParams 0)\<lparr>IsCA := True\<rparr>" 9]
    key_usage_and_ca [of demoLib "NewDefaultParams 0" 9]
  by (simp add: NewDefaultParams_def)

text \<open>
  The serial number, as far as the code decides it: the limit handed to \<^verbatim>\<open>rand.Int\<close> is
  \<open>2 ^ 128\<close> and the number drawn goes into the template as drawn. With a library whose
  draws lie from 0 up to, but not at, the limit they are asked for, a call that has its
  key either signs a template whose serial number lies from 0 up to, but not at,
  \<open>2 ^ 128\<close>, or returns the serial number error when the draw fails. This says nothing
  of how the draws are distributed, nor of how the draws of two calls relate: both are
  properties of the random source, which is a parameter here.
\<close>

lemma serial_number_range:
  assumes contract:
    "\<forall>limit g n g'. 0 < limit \<and> rand_Int lib limit g = (Inr n, g') \<longrightarrow> 0 \<le> n \<and> n < limit"
  and key: "generateKey lib cp g = ((priv, None), g1)"
  shows "serialNumberLimit = 2 ^ 128
    \<and> ((\<exists>n g2. rand_Int lib (2 ^ 128) g1 = (Inr n, g2) \<and> 0 \<le> n \<and> n < 2 ^ 128
            \<and> x509_SerialNumber (certTemplate lib cp n) = n
            \<and> genCertPair lib cp g = signTemplate lib (certTemplate lib cp n) priv g2)
       \<or> (\<exists>e g2. rand_Int lib (2 ^ 128) g1 = (Inl e, g2)
            \<and> genCertPair lib cp g = ((NilKey, None, Some (FailedSerialNumber e)), g2)))"
proof -
  have lim: "serialNumberLimit = 2 ^ 128" by (rule serialNumberLimit_value)
  obtain r g2 where d: "rand_Int lib (2 ^ 128) g1 = (r, g2)"
    by (cases "rand_Int lib (2 ^ 128) g1") auto
  show ?thesis
  proof (cases r)
    case (Inl e)
    then have "genCertPair lib cp g = ((NilKey, None, Some (FailedSerialNumber e)), g2)"
      using key d by (simp add: genCertPair_def lim)
    then show ?thesis using d Inl lim by simp
  next
    case (Inr n)
    have "(0::int) < 2 ^ 128" by simp
    then have "0 \<le> n \<and> n < 2 ^ 128" using contract d Inr by blast
    moreover have "genCertPair lib cp g = signTemplate lib (certTemplate lib cp n) priv g2"
      using key d Inr by (simp add: genCertPair_def lim)
    ultimately show ?thesis using d Inr lim by (simp add: certTemplate_SerialNumber)
  qed
qed

lemma serial_number_range_example:
  "generateKey demoLib (NewDefaultParams 0) 0 = ((RSAKey demoRSAKey, None), 1)
   \<and> rand_Int demoLib (2 ^ 128) 1 = (Inr 1012348, 2)
   \<and> (0::int) \<le> 1012348 \<and> (1012348::int) < 2 ^ 128
   \<and> x509_SerialNumber (certTemplate demoLib (NewDefaultParams 0) 1012348) = 1012348
   \<and> genCertPair demoLib (NewDefaultParams 0) 0
        = signTemplate demoLib (certTemplate demoLib (NewDefaultParams 0) 1012348) (RSAKey demoRSAKey) 2"
proof -
  have c: "\<forall>limit g n g'. 0 < limit \<and> rand_Int demoLib limit g = (Inr n, g') \<longrightarrow> 0 \<le> n \<and> n < limit"
    by (auto simp: demoLib_sel)
  have r: "rand_Int demoLib (2 ^ 128) 1 = (Inr 1012348, 2)"
    by (simp add: demoLib_sel)
  show ?thesis
    using serial_number_range [OF c demo_key(1)] demo_key(1) r by auto
qed


section \<open>Errors and the encoded pair\<close>

text \<open>
  C8. Generation is all or nothing: when \<^verbatim>\<open>genCertPair\<close> returns an error its key and its
  certificate bytes are \<^verbatim>\<open>nil\<close>, and when \<^verbatim>\<open>GenerateToMemory\<close> returns an error both of its
  byte slices are \<^verbatim>\<open>nil\<close>; when they return no error the artifacts are there. The only
  state a call leaves behind is the random source it has read.
\<close>

theorem all_or_nothing:
  "(genCertPair lib cp g = ((priv, der, Some e), g') \<longrightarrow> priv = NilKey \<and> der = None)
   \<and> (genCertPair lib cp g = ((priv, der, None), g') \<longrightarrow> der \<noteq> None)
   \<and> (GenerateToMemory lib cp g = Returns ((cert, key, Some e), g') \<longrightarrow> cert = None \<and> key = None)
   \<and> (GenerateToMemory lib cp g = Returns ((cert, key, None), g') \<longrightarrow> cert \<noteq> None \<and> key \<noteq> None)"
proof -
  have a: "priv = NilKey \<and> der = None" if "genCertPair lib cp g = ((priv, der, Some e), g')"
    using that
    by (auto simp: genCertPair_def signTemplate_def split: prod.splits sum.splits option.splits)
  have b: "der \<noteq> None" if "genCertPair lib cp g = ((priv, der, None), g')"
    using that
    by (auto simp: genCertPair_def signTemplate_def split: prod.splits sum.splits option.splits)
  have c: "cert = None \<and> key = None"
    if "GenerateToMemory lib cp g = Returns ((cert, key, Some e), g')"
    using that
    by (auto simp: GenerateToMemory_def encodePEM_def Let_def
        split: prod.splits option.splits outcome.splits)
  have d: "cert \<noteq> None \<and> key \<noteq> None"
    if "GenerateToMemory lib cp g = Returns ((cert, key, None), g')"
    using that
    by (auto simp: GenerateToMemory_def encodePEM_def Let_def
        split: prod.splits option.splits outcome.splits)
  show ?thesis using a b c d by blast
qed

theorem all_or_nothing_witness:
  "genCertPair demoLib ((NewDefaultParams 0)\<lparr>RsaBits := 512\<rparr>) 0 =
     ((NilKey, None, Some (FailedPrivateKey ''crypto/rsa: key too small'')), 0)
   \<and> GenerateToMemory demoLib ((NewDefaultParams 0)\<lparr>RsaBits := 512\<rparr>) 0 =
     Returns ((None, None, Some (FailedPrivateKey ''crypto/rsa: key too small'')), 0)
   \<and> genCertPair demoLib (NewDefaultParams 0) 0 = ((RSAKey demoRSAKey, Some [48, 130], None), 3)
   \<and> GenerateToMemory demoLib (NewDefaultParams 0) 0 =
     Returns ((Some [67, 69, 82, 84, 73, 70, 73, 67, 65, 84, 69, 48, 130],
               Some [82, 83, 65, 32, 80, 82, 73, 86, 65, 84, 69, 32, 75, 69, 89, 48, 1], None), 3)
   \<and> (Some [48, 130] :: byte list option) \<noteq> None"
  using all_or_nothing [of demoLib "(NewDefaultParams 0)\<lparr>RsaBits := 512\<rparr>" 0 NilKey None
      "FailedPrivateKey ''crypto/rsa: key too small''" 0 None None]
    all_or_nothing [of demoLib "NewDefaultParams 0" 0 "RSAKey demoRSAKey" "Some [48, 130]"
      "FailedPrivateKey []" 3 "Some [67, 69, 82, 84, 73, 70, 73, 67, 65, 84, 69, 48, 130]"
      "Some [82, 83, 65, 32, 80, 82, 73, 86, 65, 84, 69, 32, 75, 69, 89, 48, 1]"]
    demo_gen_fail demo_mem_fail demo_gen_ok demo_mem_ok
  by simp

text \<open>
  C4, as the code has it. The certificate is encoded under the block type
  \<^verbatim>\<open>CERTIFICATE\<close>; an RSA key in PKCS#1 under \<^verbatim>\<open>RSA PRIVATE KEY\<close>; an ECDSA key that the
  library marshals in SEC1 under \<^verbatim>\<open>EC PRIVATE KEY\<close>. The encoding has no error result:
  when the library cannot marshal the ECDSA key the process writes a message to standard
  error and exits with status 2, and for a key of neither type \<^verbatim>\<open>pemBlockForKey\<close> returns
  no block, which the PEM encoder cannot encode.
\<close>

theorem encodePEM_blocks:
  "encodePEM lib (RSAKey k) der =
      Returns (Some (pem_EncodeToMemory lib \<lparr>pem_Type = ''CERTIFICATE'', pem_Bytes = bytesOf der\<rparr>),
               Some (pem_EncodeToMemory lib
                 \<lparr>pem_Type = ''RSA PRIVATE KEY'', pem_Bytes = x509_MarshalPKCS1PrivateKey lib k\<rparr>),
               None)
   \<and> (x509_MarshalECPrivateKey lib k' = Inr b \<longrightarrow>
        encodePEM lib (ECDSAKey k') der =
          Returns (Some (pem_EncodeToMemory lib \<lparr>pem_Type = ''CERTIFICATE'', pem_Bytes = bytesOf der\<rparr>),
                   Some (pem_EncodeToMemory lib \<lparr>pem_Type = ''EC PRIVATE KEY'', pem_Bytes = b\<rparr>),
                   None))
   \<and> (x509_MarshalECPrivateKey lib k' = Inl err \<longrightarrow>
        encodePEM lib (ECDSAKey k') der = Exits 2 (''Unable to marshal ECDSA private key: '' @ err))
   \<and> pemBlockForKey lib NilKey = Returns None
   \<and> encodePEM lib NilKey der = Panics"
  by (simp add: encodePEM_def)

theorem encodePEM_blocks_witness:
  "x509_MarshalECPrivateKey demoLib (demoECDSAKey elliptic_P384) = Inr [48, 2]
   \<and> encodePEM demoLib (ECDSAKey (demoECDSAKey elliptic_P384)) (Some [48, 130]) =
        Returns (Some [67, 69, 82, 84, 73, 70, 73, 67, 65, 84, 69, 48, 130],
                 Some [69, 67, 32, 80, 82, 73, 86, 65, 84, 69, 32, 75, 69, 89, 48, 2], None)
   \<and> x509_MarshalECPrivateKey demoLib ((demoECDSAKey elliptic_P384)\<lparr>ecD := 0\<rparr>)
        = Inl ''x509: unknown elliptic curve''
   \<and> encodePEM demoLib (ECDSAKey ((demoECDSAKey elliptic_P384)\<lparr>ecD := 0\<rparr>)) (Some [48, 130]) =
        Exits 2 ''Unable to marshal ECDSA private key: x509: unknown elliptic curve''
   \<and> encodePEM demoLib (RSAKey demoRSAKey) (Some [48, 130]) =
        Returns (Some [67, 69, 82, 84, 73, 70, 73, 67, 65, 84, 69, 48, 130],
                 Some [82, 83, 65, 32, 80, 82, 73, 86, 65, 84, 69, 32, 75, 69, 89, 48, 1], None)"
proof -
  have m: "x509_MarshalECPrivateKey demoLib (demoECDSAKey elliptic_P384) = Inr [48, 2]"
    "x509_MarshalECPrivateKey demoLib ((demoECDSAKey elliptic_P384)\<lparr>ecD := 0\<rparr>)
        = Inl ''x509: unknown elliptic curve''"
    by (simp_all add: demoLib_sel demoECDSAKey_def)
  show ?thesis
    using encodePEM_blocks [of demoLib demoRSAKey "Some [48, 130]" "demoECDSAKey elliptic_P384"
        "[48, 2]" "''x509: unknown elliptic curve''"]
      encodePEM_blocks [of demoLib demoRSAKey "Some [48, 130]"
        "(demoECDSAKey elliptic_P384)\<lparr>ecD := 0\<rparr>" "[48, 2]" "''x509: unknown elliptic curve''"]
      m
    by (simp add: demoLib_sel)
qed

text \<open>
  C4, as the specification states it, fails: for the \<^verbatim>\<open>nil\<close> key no error is returned
  (\<^verbatim>\<open>pemBlockForKey\<close> returns no block and the encoding panics), and for an ECDSA key that
  the library cannot marshal the process exits with status 2, which is an effect outside
  the result.
\<close>

theorem encodePEM_counterexample:
  "pemBlockForKey demoLib NilKey = Returns None
   \<and> encodePEM demoLib NilKey (Some [48, 130]) = Panics
   \<and> encodePEM demoLib (ECDSAKey ((demoECDSAKey elliptic_P256)\<lparr>ecD := 0\<rparr>)) (Some [48, 130])
        = Exits 2 ''Unable to marshal ECDSA private key: x509: unknown elliptic curve''"
  by (simp add: encodePEM_def demoLib_sel demoECDSAKey_def)

text \<open>
  C7, at the curve value 4 with \<^verbatim>\<open>Rsa\<close> false. The \<^verbatim>\<open>switch\<close> matches no case: whatever the
  library, no key is generated and no error is set, and the random source is left as it
  was. The call goes on to the serial number and to signing with a \<^verbatim>\<open>nil\<close> key; with a
  library that refuses to sign with it, the error returned is the one of the signing
  phase, not the key generation error.
\<close>

theorem unsupported_curve_not_key_error:
  "generateKey lib ((NewDefaultParams now)\<lparr>Rsa := False, EcdsaCurve := 4\<rparr>) g = ((NilKey, None), g)
   \<and> genCertPair demoLib ((NewDefaultParams 0)\<lparr>Rsa := False, EcdsaCurve := 4\<rparr>) 0 =
       ((NilKey, None, Some (FailedCreateCertificate
          ''x509: certificate private key does not implement crypto.Signer'')), 1)
   \<and> kindOf (FailedCreateCertificate
          ''x509: certificate private key does not implement crypto.Signer'') = SerializationError"
proof -
  have p: "\<not> Rsa ((NewDefaultParams t)\<lparr>Rsa := False, EcdsaCurve := 4\<rparr>)"
    "EcdsaCurve ((NewDefaultParams t)\<lparr>Rsa := False, EcdsaCurve := 4\<rparr>) \<notin> {P224, P256, P384, P521}"
    for t
    by (simp_all add: curve_defs)
  have "genCertPair demoLib ((NewDefaultParams 0)\<lparr>Rsa := False, EcdsaCurve := 4\<rparr>) 0 =
       ((NilKey, None, Some (FailedCreateCertificate
          ''x509: certificate private key does not implement crypto.Signer'')), 1)"
    by (simp add: genCertPair_def generateKey_unsupported_curve [OF p] demoLib_sel demo_sign)
  then show ?thesis by (simp add: generateKey_unsupported_curve [OF p])
qed

section \<open>Curve names\<close>



text \<open>
  C9. The curve names round-trip: for each of the four curve constants,
  \<^verbatim>\<open>ECDSACurveFromString\<close> applied to its \<^verbatim>\<open>String()\<close> gives the constant back with no
  error; every other string gives \<^verbatim>\<open>P224\<close> together with an error; and \<^verbatim>\<open>String()\<close> of a
  value that is none of the four constants is the empty string.
\<close>

theorem curve_name_roundtrip:
  "(e \<in> {P224, P256, P384, P521} \<longrightarrow> ECDSACurveFromString (ECDSACurve_String e) = (e, None))
   \<and> (s \<notin> {''P224'', ''P256'', ''P384'', ''P521''} \<longrightarrow>
        ECDSACurveFromString s = (P224, Some ''Invalid or Not supported ECDSA Curve''))
   \<and> (e' \<notin> {P224, P256, P384, P521} \<longrightarrow> ECDSACurve_String e' = '''')"
  by (auto simp: ECDSACurveFromString_def ECDSACurve_String_def curve_defs)

theorem curve_name_roundtrip_witness:
  "P384 \<in> {P224, P256, P384, P521} \<and> ECDSACurveFromString (ECDSACurve_String P384) = (P384, None)
   \<and> ''secp256k1'' \<notin> {''P224'', ''P256'', ''P384'', ''P521''}
   \<and> ECDSACurveFromString ''secp256k1'' = (P224, Some ''Invalid or Not supported ECDSA Curve'')
   \<and> (7::int) \<notin> {P224, P256, P384, P521} \<and> ECDSACurve_String 7 = ''''"
  using curve_name_roundtrip [of P384 "''secp256k1''" 7] by (simp add: curve_defs)


end
